theory Spec2Isabelle
  imports Main "HOL-Library.Sublist" "HOL-Library.Multiset"
begin

section \<open>The prompt catalog page: data model\<close>

text \<open>
  The page \<^verbatim>\<open>src/routes/+page.svelte\<close> exists in two variants. Both declare the same
  \<^verbatim>\<open>Prompt\<close> interface and the same component variables; the second variant adds the
  clipboard feedback variables. A string is a list of code units, restricted here to the
  range U+0000..U+00FF (one \<^typ>\<open>char\<close> per code unit); a number that is used as a
  record id is an \<^typ>\<open>int\<close>.
\<close>

record Prompt =
  id' :: int
  title :: string
  prompt :: string
  use :: string
  tags :: "string list"
  updated_at :: string

text \<open>The row object handed to \<^verbatim>\<open>supabase.from('prompts').insert([...])\<close>.\<close>

record insert_row =
  row_title :: string
  row_prompt :: string
  row_use :: string
  row_tags :: "string list"

text \<open>
  The two request shapes the page sends to the store: the first variant inserts only,
  the second variant chains \<^verbatim>\<open>.select().single()\<close> to read the inserted row back.
\<close>

datatype store_request = Insert insert_row | InsertSelectSingle insert_row

text \<open>
  What the second variant destructures from the awaited call: \<^verbatim>\<open>data\<close> (the
  inserted row or null) and \<^verbatim>\<open>error\<close> (an error with a message, or null).
  The first variant destructures \<^verbatim>\<open>error\<close> only.
\<close>

record insert_response =
  data :: "Prompt option"
  error :: "string option"

text \<open>
  The component variables of the first variant, followed by the two effects of the
  handlers that leave the component: the messages passed to \<^verbatim>\<open>alert\<close> and the
  requests issued to the store, both in the order in which they happened. Console
  output is not modelled.
\<close>

record view =
  prompts :: "Prompt list"
  filtered :: "Prompt list"
  searchTerm :: string
  currentFilter :: string
  showModal :: bool
  newTitle :: string
  newPromptText :: string
  newUse :: string
  newTagsInput :: string
  alerts :: "string list"
  store_calls :: "store_request list"

text \<open>
  The second variant adds the copy feedback variables, the texts passed to
  \<^verbatim>\<open>navigator.clipboard.writeText\<close> and the callbacks scheduled with \<^verbatim>\<open>setTimeout\<close>: each pending callback is kept as its
  delay in milliseconds and the record id its closure captured.
\<close>

record view2 = view +
  copiedPromptId :: "int option"
  copyError :: string
  clipboardSupported :: bool
  clipboard_calls :: "string list"
  timers :: "(nat \<times> int) list"

section \<open>Strings\<close>

text \<open>
  \<^verbatim>\<open>String.prototype.toLowerCase\<close> on code units up to U+00FF: the letters A..Z and
  the letters U+00C0..U+00DE except the multiplication sign U+00D7 move up by 32.
\<close>

definition lower_unit :: "char \<Rightarrow> char" where
  "lower_unit c =
     (let n = (of_char c :: nat)
      in if (65 \<le> n \<and> n \<le> 90) \<or> (192 \<le> n \<and> n \<le> 222 \<and> n \<noteq> 215)
         then char_of (n + 32) else c)"

definition toLowerCase :: "string \<Rightarrow> string" where
  "toLowerCase s = map lower_unit s"

text \<open>
  \<^verbatim>\<open>s.includes(t)\<close> on strings: scan the start positions of \<^verbatim>\<open>s\<close> from the left
  and compare \<^verbatim>\<open>t\<close> with what begins there.
\<close>

fun includes_str :: "string \<Rightarrow> string \<Rightarrow> bool" where
  "includes_str [] t = (t = [])"
| "includes_str (x # xs) t = (prefix t (x # xs) \<or> includes_str xs t)"

text \<open>\<^verbatim>\<open>tags.includes(v)\<close> on an array of strings: some element equals \<^verbatim>\<open>v\<close>.\<close>

fun includes_arr :: "string list \<Rightarrow> string \<Rightarrow> bool" where
  "includes_arr [] v = False"
| "includes_arr (x # xs) v = (x = v \<or> includes_arr xs v)"

section \<open>The filter and search engine\<close>

text \<open>The arrow function passed to \<^verbatim>\<open>prompts.filter\<close> in \<^verbatim>\<open>updateFiltered\<close>.\<close>

definition updateFiltered_keep :: "string \<Rightarrow> string \<Rightarrow> Prompt \<Rightarrow> bool" where
  "updateFiltered_keep term cf p =
     (let matchFilter = (cf = ''all'' \<or> includes_arr (tags p) cf);
          matchSearch = (term = [] \<or>
            includes_str (toLowerCase (title p)) term \<or>
            includes_str (toLowerCase (prompt p)) term \<or>
            includes_str (toLowerCase (use p)) term)
      in matchFilter \<and> matchSearch)"

definition updateFiltered :: "'a view_scheme \<Rightarrow> 'a view_scheme" where
  "updateFiltered st =
     (let term = toLowerCase (searchTerm st)
      in st\<lparr>filtered := filter (updateFiltered_keep term (currentFilter st)) (prompts st)\<rparr>)"

definition onSearch :: "string \<Rightarrow> 'a view_scheme \<Rightarrow> 'a view_scheme" where
  "onSearch v st = updateFiltered (st\<lparr>searchTerm := v\<rparr>)"

definition setFilter :: "string \<Rightarrow> 'a view_scheme \<Rightarrow> 'a view_scheme" where
  "setFilter f st = updateFiltered (st\<lparr>currentFilter := f\<rparr>)"

text \<open>
  The inclusion rule in the specification's words: the category is \<^verbatim>\<open>all\<close> or one of
  the record's tags, and the search term is empty or its lower-cased form is a
  substring of the lower-cased title, body or use case.
\<close>

definition spec_included :: "string \<Rightarrow> string \<Rightarrow> Prompt \<Rightarrow> bool" where
  "spec_included st_term cf r =
     ((cf = ''all'' \<or> cf \<in> set (tags r)) \<and>
      (st_term = [] \<or>
       sublist (toLowerCase st_term) (toLowerCase (title r)) \<or>
       sublist (toLowerCase st_term) (toLowerCase (prompt r)) \<or>
       sublist (toLowerCase st_term) (toLowerCase (use r))))"

section \<open>The record creation flow\<close>

definition openModal :: "'a view_scheme \<Rightarrow> 'a view_scheme" where
  "openModal st =
     st\<lparr>newTitle := [], newPromptText := [], newUse := [], newTagsInput := [],
        showModal := True\<rparr>"

definition closeModal :: "'a view_scheme \<Rightarrow> 'a view_scheme" where
  "closeModal st = st\<lparr>showModal := False\<rparr>"

subsection \<open>Deriving the tags\<close>

text \<open>
  \<^verbatim>\<open>s.split(',')\<close> with a one-unit separator: scan the units, collecting the current
  segment (reversed in \<open>cur\<close>), and close a segment at each separator and at the end.
\<close>

fun split_scan :: "char \<Rightarrow> string \<Rightarrow> string \<Rightarrow> string list" where
  "split_scan c cur [] = [rev cur]"
| "split_scan c cur (x # xs) =
     (if x = c then rev cur # split_scan c [] xs else split_scan c (x # cur) xs)"

definition split :: "char \<Rightarrow> string \<Rightarrow> string list" where
  "split c s = split_scan c [] s"

text \<open>
  The white space and line terminator code units up to U+00FF that
  \<^verbatim>\<open>String.prototype.trim\<close> removes: U+0009..U+000D, U+0020 and U+00A0.
\<close>

definition is_ws :: "char \<Rightarrow> bool" where
  "is_ws c = (let n = (of_char c :: nat) in (9 \<le> n \<and> n \<le> 13) \<or> n = 32 \<or> n = 160)"

definition trim :: "string \<Rightarrow> string" where
  "trim s = rev (dropWhile is_ws (rev (dropWhile is_ws s)))"

text \<open>\<^verbatim>\<open>Boolean\<close> applied to a string: only the empty string is falsy.\<close>

definition Boolean_str :: "string \<Rightarrow> bool" where
  "Boolean_str s = (s \<noteq> [])"

text \<open>
  \<^verbatim>\<open>Array.prototype.slice(start, end)\<close>: a negative index counts from the end, and
  both indices are clamped to the array.
\<close>

definition slice :: "int \<Rightarrow> int \<Rightarrow> 'a list \<Rightarrow> 'a list" where
  "slice start fin xs =
     (let len = int (length xs);
          k = (if start < 0 then max (len + start) 0 else min start len);
          final = (if fin < 0 then max (len + fin) 0 else min fin len)
      in take (nat (final - k)) (drop (nat k) xs))"

text \<open>
  The constant \<^verbatim>\<open>tags\<close> of \<^verbatim>\<open>savePrompt\<close>:
  \<^verbatim>\<open>newTagsInput.split(',').map(t => t.trim()).filter(Boolean).slice(0, 3)\<close>.
\<close>

definition savePrompt_tags :: "string \<Rightarrow> string list" where
  "savePrompt_tags input = slice 0 3 (filter Boolean_str (map trim (split CHR '','' input)))"

text \<open>
  \<^verbatim>\<open>Array.prototype.join\<close> with a one-unit separator. The page does not call it; it
  states what splitting means: the segments joined by commas are the input again.
\<close>

fun join :: "char \<Rightarrow> string list \<Rightarrow> string" where
  "join c [] = []"
| "join c [s] = s"
| "join c (s # t # ts) = s @ c # join c (t # ts)"

subsection \<open>Submitting the form\<close>

text \<open>
  \<^verbatim>\<open>savePrompt\<close> is an async function with one \<^verbatim>\<open>await\<close>. Its first part runs up
  to the await: it validates the three required fields, computes \<^verbatim>\<open>tags\<close> and issues
  the insert. It returns the new state and, when the handler is suspended at the await,
  the captured constant \<^verbatim>\<open>tags\<close>; \<open>None\<close> says that the handler has returned.
  The two variants differ in the request only.
\<close>

definition validation_notice :: string where
  "validation_notice = ''Please fill in Title, Prompt, and Use''"

definition savePrompt_row :: "'a view_scheme \<Rightarrow> insert_row" where
  "savePrompt_row st =
     \<lparr>row_title = newTitle st, row_prompt = newPromptText st, row_use = newUse st,
      row_tags = savePrompt_tags (newTagsInput st)\<rparr>"

definition savePrompt1_begin :: "'a view_scheme \<Rightarrow> 'a view_scheme \<times> string list option" where
  "savePrompt1_begin st =
     (if newTitle st = [] \<or> newPromptText st = [] \<or> newUse st = []
      then (st\<lparr>alerts := alerts st @ [validation_notice]\<rparr>, None)
      else (st\<lparr>store_calls := store_calls st @ [Insert (savePrompt_row st)]\<rparr>,
            Some (savePrompt_tags (newTagsInput st))))"

definition savePrompt2_begin :: "'a view_scheme \<Rightarrow> 'a view_scheme \<times> string list option" where
  "savePrompt2_begin st =
     (if newTitle st = [] \<or> newPromptText st = [] \<or> newUse st = []
      then (st\<lparr>alerts := alerts st @ [validation_notice]\<rparr>, None)
      else (st\<lparr>store_calls := store_calls st @ [InsertSelectSingle (savePrompt_row st)]\<rparr>,
            Some (savePrompt_tags (newTagsInput st))))"

text \<open>
  The second part runs when the awaited call settles. In the first variant \<open>err\<close> is
  the destructured \<^verbatim>\<open>error\<close>; \<open>stamp\<close> is \<^verbatim>\<open>new Date().toISOString()\<close>. On an error
  the handler logs to the console and returns. Otherwise it puts a record with the id
  \<open>-1\<close> in front of \<^verbatim>\<open>prompts\<close>, recomputes the filtered view and closes the modal.
\<close>

definition savePrompt1_resume ::
  "string list \<Rightarrow> string option \<Rightarrow> string \<Rightarrow> 'a view_scheme \<Rightarrow> 'a view_scheme" where
  "savePrompt1_resume tgs err stamp st =
     (case err of
        Some e \<Rightarrow> st
      | None \<Rightarrow>
          closeModal (updateFiltered (st\<lparr>prompts :=
            \<lparr>id' = - 1, title = newTitle st, prompt = newPromptText st, use = newUse st,
             tags = tgs, updated_at = stamp\<rparr> # prompts st\<rparr>)))"

text \<open>
  In the second variant \<open>resp\<close> carries \<^verbatim>\<open>data\<close> and \<^verbatim>\<open>error\<close>, and \<open>now\<close> is
  \<^verbatim>\<open>Date.now()\<close>. On an error the handler alerts the message and returns. Otherwise
  it puts the inserted row in front of \<^verbatim>\<open>prompts\<close> when there is one, and a record
  built from the form with the id \<open>now\<close> when there is none.
\<close>

definition savePrompt2_resume ::
  "string list \<Rightarrow> insert_response \<Rightarrow> int \<Rightarrow> string \<Rightarrow> 'a view_scheme \<Rightarrow> 'a view_scheme" where
  "savePrompt2_resume tgs resp now stamp st =
     (case error resp of
        Some e \<Rightarrow> st\<lparr>alerts := alerts st @ [''Error saving prompt: '' @ e]\<rparr>
      | None \<Rightarrow>
          (case data resp of
             Some insertedData \<Rightarrow>
               closeModal (updateFiltered (st\<lparr>prompts := insertedData # prompts st\<rparr>))
           | None \<Rightarrow>
               (let tempPromptData =
                      \<lparr>id' = now, title = newTitle st, prompt = newPromptText st,
                       use = newUse st, tags = tgs, updated_at = stamp\<rparr>
                in closeModal (updateFiltered (st\<lparr>prompts := tempPromptData # prompts st\<rparr>)))))"

text \<open>One whole run of the handler, with nothing else happening during the await.\<close>

definition savePrompt1 :: "string option \<Rightarrow> string \<Rightarrow> 'a view_scheme \<Rightarrow> 'a view_scheme" where
  "savePrompt1 err stamp st =
     (case savePrompt1_begin st of
        (st', None) \<Rightarrow> st'
      | (st', Some tgs) \<Rightarrow> savePrompt1_resume tgs err stamp st')"

definition savePrompt2 ::
  "insert_response \<Rightarrow> int \<Rightarrow> string \<Rightarrow> 'a view_scheme \<Rightarrow> 'a view_scheme" where
  "savePrompt2 resp now stamp st =
     (case savePrompt2_begin st of
        (st', None) \<Rightarrow> st'
      | (st', Some tgs) \<Rightarrow> savePrompt2_resume tgs resp now stamp st')"

text \<open>
  A run of the second variant's handler with other handlers running while the insert is
  awaited: the modal stays open and its inputs stay bound to the form variables, so the
  state the handler finds when it resumes is \<open>during\<close> applied to the state it left.
\<close>

definition savePrompt2_interleaved ::
  "('a view_scheme \<Rightarrow> 'a view_scheme) \<Rightarrow> insert_response \<Rightarrow> int \<Rightarrow> string \<Rightarrow>
   'a view_scheme \<Rightarrow> 'a view_scheme" where
  "savePrompt2_interleaved during resp now stamp st =
     (case savePrompt2_begin st of
        (st', None) \<Rightarrow> st'
      | (st', Some tgs) \<Rightarrow> savePrompt2_resume tgs resp now stamp (during st'))"

section \<open>Copy to clipboard\<close>

text \<open>
  \<^verbatim>\<open>onMount\<close> stores whether \<^verbatim>\<open>navigator.clipboard.writeText\<close> exists; \<open>cap\<close> is
  that capability.
\<close>

definition onMount :: "bool \<Rightarrow> 'a view2_scheme \<Rightarrow> 'a view2_scheme" where
  "onMount cap st = st\<lparr>clipboardSupported := cap\<rparr>"

definition clipboard_notice :: string where
  "clipboard_notice =
     ''Clipboard access is not available. This might be due to browser settings or using HTTP instead of HTTPS.''"

text \<open>
  \<^verbatim>\<open>copyPrompt\<close> up to its await: the two guards, the reset of both feedback
  variables, and the call of \<^verbatim>\<open>writeText\<close>. The boolean says whether the handler is
  suspended at the await.
\<close>

definition copyPrompt_begin :: "string \<Rightarrow> int \<Rightarrow> 'a view2_scheme \<Rightarrow> 'a view2_scheme \<times> bool" where
  "copyPrompt_begin textToCopy i st =
     (if \<not> clipboardSupported st then (st\<lparr>alerts := alerts st @ [clipboard_notice]\<rparr>, False)
      else if textToCopy = [] then (st, False)
      else (st\<lparr>copyError := [], copiedPromptId := None,
               clipboard_calls := clipboard_calls st @ [textToCopy]\<rparr>, True))"

text \<open>
  \<^verbatim>\<open>copyPrompt\<close> after the await: when the write succeeded (\<open>ok\<close>) it sets the feedback
  id and schedules the revert after 1500 ms; when the write was rejected it sets the
  error message.
\<close>

definition copyPrompt_settle :: "bool \<Rightarrow> int \<Rightarrow> 'a view2_scheme \<Rightarrow> 'a view2_scheme" where
  "copyPrompt_settle ok i st =
     (if ok then st\<lparr>copiedPromptId := Some i, timers := timers st @ [(1500, i)]\<rparr>
      else st\<lparr>copyError := ''Failed to copy prompt. See console for details.''\<rparr>)"

definition copyPrompt :: "bool \<Rightarrow> string \<Rightarrow> int \<Rightarrow> 'a view2_scheme \<Rightarrow> 'a view2_scheme" where
  "copyPrompt ok textToCopy i st =
     (case copyPrompt_begin textToCopy i st of
        (st', False) \<Rightarrow> st'
      | (st', True) \<Rightarrow> copyPrompt_settle ok i st')"

text \<open>The arrow function passed to \<^verbatim>\<open>setTimeout\<close>, with the id its closure holds.\<close>

definition revert_callback :: "int \<Rightarrow> 'a view2_scheme \<Rightarrow> 'a view2_scheme" where
  "revert_callback i st = (if copiedPromptId st = Some i then st\<lparr>copiedPromptId := None\<rparr> else st)"

text \<open>The pending callback at position \<open>k\<close> fires: it leaves the pending list and runs.\<close>

definition fire_timer :: "nat \<Rightarrow> 'a view2_scheme \<Rightarrow> 'a view2_scheme" where
  "fire_timer k st =
     (if k < length (timers st)
      then revert_callback (snd (timers st ! k))
             (st\<lparr>timers := take k (timers st) @ drop (Suc k) (timers st)\<rparr>)
      else st)"

text \<open>
  The card of a record shows the feedback when \<^verbatim>\<open>copiedPromptId === p.id\<close>; its text
  block then reads \<^verbatim>\<open>Copied!\<close> instead of the prompt.
\<close>

definition shows_copied :: "'a view2_scheme \<Rightarrow> Prompt \<Rightarrow> bool" where
  "shows_copied st p = (copiedPromptId st = Some (id' p))"

definition card_text :: "'a view2_scheme \<Rightarrow> Prompt \<Rightarrow> string" where
  "card_text st p = (if shows_copied st p then ''Copied!'' else prompt p)"

section \<open>Loading the page\<close>

text \<open>
  \<^verbatim>\<open>load\<close> of \<^verbatim>\<open>+page.server.ts\<close>: the store's answer to the ordered select is
  \<open>rows\<close> and \<open>err\<close>; an error is thrown, otherwise the rows are the page data.
\<close>

definition load :: "Prompt list \<Rightarrow> string option \<Rightarrow> string + Prompt list" where
  "load rows err = (case err of Some e \<Rightarrow> Inl e | None \<Rightarrow> Inr rows)"

text \<open>The initial values of the component variables, given the page data.\<close>

definition init_view :: "Prompt list \<Rightarrow> view" where
  "init_view ps =
     \<lparr>prompts = ps, filtered = ps, searchTerm = [], currentFilter = ''all'',
      showModal = False, newTitle = [], newPromptText = [], newUse = [],
      newTagsInput = [], alerts = [], store_calls = []\<rparr>"

definition init_view2 :: "Prompt list \<Rightarrow> view2" where
  "init_view2 ps =
     \<lparr>prompts = ps, filtered = ps, searchTerm = [], currentFilter = ''all'',
      showModal = False, newTitle = [], newPromptText = [], newUse = [],
      newTagsInput = [], alerts = [], store_calls = [],
      copiedPromptId = None, copyError = [], clipboardSupported = False,
      clipboard_calls = [], timers = []\<rparr>"

text \<open>The user types into the four form inputs (the \<^verbatim>\<open>bind:value\<close> bindings).\<close>

definition fill_form :: "string \<Rightarrow> string \<Rightarrow> string \<Rightarrow> string \<Rightarrow> 'a view_scheme \<Rightarrow> 'a view_scheme" where
  "fill_form t p u g st =
     st\<lparr>newTitle := t, newPromptText := p, newUse := u, newTagsInput := g\<rparr>"

section \<open>Example inputs\<close>

text \<open>The record of the specification's end-to-end scenario, and a second one.\<close>

definition ex_admin :: Prompt where
  "ex_admin =
     \<lparr>id' = 1, title = ''X'', prompt = ''Y'', use = ''Z'', tags = [''admin''],
      updated_at = ''2024-01-01''\<rparr>"

definition ex_copy :: Prompt where
  "ex_copy =
     \<lparr>id' = 2, title = ''Blog Intro'', prompt = ''Write a Hook'', use = ''Posts'',
      tags = [''copywriting'', ''brainstorming''], updated_at = ''2023-12-24''\<rparr>"

text \<open>The first variant's view with the form of the specification's tag scenario.\<close>

definition ex_form :: view where
  "ex_form = fill_form ''T'' ''B'' ''U'' ''a, b, c, d'' (openModal (init_view [ex_admin]))"

text \<open>The same form with the title left empty.\<close>

definition ex_no_title :: view where
  "ex_no_title = fill_form [] ''B'' ''U'' ''a, b'' (openModal (init_view [ex_admin]))"

text \<open>Two creations in a row through the first variant, starting from an empty catalog.\<close>

definition ex_first_save :: view where
  "ex_first_save =
     savePrompt1 None ''2024-05-01T10:00:00.000Z''
       (fill_form ''T'' ''B'' ''U'' ''a, b, c, d'' (openModal (init_view [])))"

definition ex_second_save :: view where
  "ex_second_save =
     savePrompt1 None ''2024-05-01T10:05:00.000Z''
       (fill_form ''T2'' ''B2'' ''U2'' [] (openModal ex_first_save))"

text \<open>The second variant's view, mounted with and without the clipboard capability.\<close>

definition ex_view2 :: view2 where
  "ex_view2 = onMount True (init_view2 [ex_copy, ex_admin])"

definition ex_no_clipboard :: view2 where
  "ex_no_clipboard = onMount False (init_view2 [ex_copy, ex_admin])"

definition ex_form2 :: view2 where
  "ex_form2 = fill_form ''T'' ''B'' ''U'' ''a, b, c, d'' (openModal ex_view2)"

section \<open>Properties of the filter\<close>

lemma includes_str_sublist: "includes_str s t \<longleftrightarrow> sublist t s"
  by (induction s) (simp_all add: sublist_Cons_right)

lemma includes_arr_set: "includes_arr xs v \<longleftrightarrow> v \<in> set xs"
  by (induction xs) auto

lemma toLowerCase_empty: "toLowerCase s = [] \<longleftrightarrow> s = []"
  by (simp add: toLowerCase_def)

lemma updateFiltered_keep_spec:
  "updateFiltered_keep (toLowerCase s) cf = spec_included s cf"
  by (rule ext)
     (simp add: updateFiltered_keep_def spec_included_def includes_str_sublist
        includes_arr_set toLowerCase_empty)

lemma updateFiltered_eq:
  "updateFiltered st =
     st\<lparr>filtered := filter (spec_included (searchTerm st) (currentFilter st)) (prompts st)\<rparr>"
  by (simp add: updateFiltered_def updateFiltered_keep_spec)

text \<open>
  C1. For every record set, search term and category filter, the recomputed filtered
  view holds exactly the records of the full set that satisfy the inclusion rule: it is
  the full set with the other records removed, and as a set it is the set of the
  included records. The same holds when the recomputation is reached through the search
  input or a filter button.
\<close>

theorem filtered_view_is_included_subset:
  "filtered (updateFiltered st) =
     filter (spec_included (searchTerm st) (currentFilter st)) (prompts st)
   \<and> set (filtered (updateFiltered st)) =
     {r. r \<in> set (prompts st) \<and> spec_included (searchTerm st) (currentFilter st) r}
   \<and> filtered (onSearch v st) = filter (spec_included v (currentFilter st)) (prompts st)
   \<and> filtered (setFilter f st) = filter (spec_included (searchTerm st) f) (prompts st)"
  by (auto simp add: updateFiltered_eq onSearch_def setFilter_def)

text \<open>
  C1 at the end-to-end scenario: one loaded record tagged \<^verbatim>\<open>admin\<close>; the filter
  \<^verbatim>\<open>admin\<close> keeps it, the filter \<^verbatim>\<open>copywriting\<close> leaves nothing.
\<close>

theorem filtered_view_is_included_subset_witness:
  "filtered (updateFiltered (setFilter ''admin'' (init_view [ex_admin]))) = [ex_admin]
   \<and> filtered (updateFiltered (setFilter ''copywriting'' (init_view [ex_admin]))) = []"
proof -
  have a: "spec_included [] ''admin'' ex_admin"
    by (simp add: spec_included_def ex_admin_def)
  have c: "\<not> spec_included [] ''copywriting'' ex_admin"
    by (simp add: spec_included_def ex_admin_def)
  have s: "searchTerm (setFilter f (init_view ps)) = []"
    "currentFilter (setFilter f (init_view ps)) = f"
    "prompts (setFilter f (init_view ps)) = ps" for f ps
    by (simp_all add: setFilter_def updateFiltered_eq init_view_def)
  from filtered_view_is_included_subset[of "setFilter ''admin'' (init_view [ex_admin])"]
    filtered_view_is_included_subset[of "setFilter ''copywriting'' (init_view [ex_admin])"]
  show ?thesis by (simp add: s a c)
qed

text \<open>
  C10. Recomputing the filtered view changes the variable \<^verbatim>\<open>filtered\<close> and nothing
  else: the full set, with every record in it, is what it was. The new filtered view is
  a subsequence of the full set (the kept records in their order), and no record occurs
  in it more often than in the full set.
\<close>

theorem updateFiltered_frame_and_subsequence:
  "prompts (updateFiltered st) = prompts st
   \<and> updateFiltered st = st\<lparr>filtered := filtered (updateFiltered st)\<rparr>
   \<and> subseq (filtered (updateFiltered st)) (prompts st)
   \<and> mset (filtered (updateFiltered st)) \<subseteq># mset (prompts st)"
  by (simp add: updateFiltered_eq)

theorem updateFiltered_frame_and_subsequence_witness:
  "prompts (updateFiltered (onSearch ''hook'' (init_view [ex_copy, ex_admin]))) = [ex_copy, ex_admin]
   \<and> subseq (filtered (updateFiltered (onSearch ''hook'' (init_view [ex_copy, ex_admin]))))
        [ex_copy, ex_admin]"
proof -
  have p: "prompts (onSearch t (init_view ps)) = ps" for t ps
    by (simp add: onSearch_def updateFiltered_eq init_view_def)
  from updateFiltered_frame_and_subsequence[of "onSearch ''hook'' (init_view [ex_copy, ex_admin])"]
  show ?thesis by (simp add: p)
qed

section \<open>Properties of the creation flow\<close>

lemma savePrompt1_begin_valid:
  "newTitle st \<noteq> [] \<Longrightarrow> newPromptText st \<noteq> [] \<Longrightarrow> newUse st \<noteq> [] \<Longrightarrow>
   savePrompt1_begin st =
     (st\<lparr>store_calls := store_calls st @ [Insert (savePrompt_row st)]\<rparr>,
      Some (savePrompt_tags (newTagsInput st)))"
  by (simp add: savePrompt1_begin_def)

lemma savePrompt2_begin_valid:
  "newTitle st \<noteq> [] \<Longrightarrow> newPromptText st \<noteq> [] \<Longrightarrow> newUse st \<noteq> [] \<Longrightarrow>
   savePrompt2_begin st =
     (st\<lparr>store_calls := store_calls st @ [InsertSelectSingle (savePrompt_row st)]\<rparr>,
      Some (savePrompt_tags (newTagsInput st)))"
  by (simp add: savePrompt2_begin_def)

lemma savePrompt1_begin_invalid:
  "newTitle st = [] \<or> newPromptText st = [] \<or> newUse st = [] \<Longrightarrow>
   savePrompt1_begin st = (st\<lparr>alerts := alerts st @ [validation_notice]\<rparr>, None)"
  by (auto simp add: savePrompt1_begin_def)

lemma savePrompt2_begin_invalid:
  "newTitle st = [] \<or> newPromptText st = [] \<or> newUse st = [] \<Longrightarrow>
   savePrompt2_begin st = (st\<lparr>alerts := alerts st @ [validation_notice]\<rparr>, None)"
  by (auto simp add: savePrompt2_begin_def)

lemma ex_form_fields:
  "newTitle ex_form = ''T''" "newPromptText ex_form = ''B''" "newUse ex_form = ''U''"
  "newTagsInput ex_form = ''a, b, c, d''" "store_calls ex_form = []" "alerts ex_form = []"
  "prompts ex_form = [ex_admin]" "filtered ex_form = [ex_admin]" "showModal ex_form"
  "searchTerm ex_form = []" "currentFilter ex_form = ''all''"
  by (simp_all add: ex_form_def fill_form_def openModal_def init_view_def)

lemma ex_form2_fields:
  "newTitle ex_form2 = ''T''" "newPromptText ex_form2 = ''B''" "newUse ex_form2 = ''U''"
  "newTagsInput ex_form2 = ''a, b, c, d''" "prompts ex_form2 = [ex_copy, ex_admin]"
  by (simp_all add: ex_form2_def ex_view2_def onMount_def fill_form_def openModal_def
      init_view2_def)

lemma ex_no_title_fields:
  "newTitle ex_no_title = []" "store_calls ex_no_title = []" "alerts ex_no_title = []"
  "prompts ex_no_title = [ex_admin]" "filtered ex_no_title = [ex_admin]" "showModal ex_no_title"
  "newTagsInput ex_no_title = ''a, b''"
  by (simp_all add: ex_no_title_def fill_form_def openModal_def init_view_def)

subsection \<open>Splitting, trimming, truncating\<close>

lemma split_scan_nonempty: "split_scan c cur s \<noteq> []"
  by (induction s arbitrary: cur) auto

lemma join_Cons: "xs \<noteq> [] \<Longrightarrow> join c (a # xs) = a @ c # join c xs"
  by (cases xs) auto

lemma join_split_scan: "join c (split_scan c cur s) = rev cur @ s"
  by (induction s arbitrary: cur) (auto simp: join_Cons split_scan_nonempty)

lemma join_split: "join c (split c s) = s"
  by (simp add: split_def join_split_scan)

lemma split_scan_no_sep:
  "c \<notin> set cur \<Longrightarrow> seg \<in> set (split_scan c cur s) \<Longrightarrow> c \<notin> set seg"
proof (induction c cur s rule: split_scan.induct)
  case (1 c cur)
  then show ?case by simp
next
  case (2 c cur x xs)
  show ?case
  proof (cases "x = c")
    case True
    with 2 show ?thesis by (cases "seg = rev cur") simp_all
  next
    case False
    with 2 show ?thesis by simp
  qed
qed

lemma split_no_sep: "seg \<in> set (split c s) \<Longrightarrow> c \<notin> set seg"
  unfolding split_def using split_scan_no_sep[of c "[]"] by simp

lemma slice_0_3: "slice 0 3 xs = take 3 xs"
  by (simp add: slice_def Let_def min_def)

lemma savePrompt_tags_eq:
  "savePrompt_tags raw = take 3 (filter (\<lambda>t. t \<noteq> []) (map trim (split CHR '','' raw)))"
proof -
  have "Boolean_str = (\<lambda>t. t \<noteq> [])" by (rule ext) (simp add: Boolean_str_def)
  then show ?thesis by (simp add: savePrompt_tags_def slice_0_3)
qed

lemma savePrompt_tags_example: "savePrompt_tags ''a, b, c, d'' = [''a'', ''b'', ''c'']"
  by (simp add: savePrompt_tags_def slice_def split_def trim_def is_ws_def Boolean_str_def)

lemma trim_no_ws_ends:
  assumes ne: "trim s \<noteq> []"
  shows "\<not> is_ws (hd (trim s)) \<and> \<not> is_ws (last (trim s))"
proof -
  define u where "u = dropWhile is_ws s"
  define v where "v = dropWhile is_ws (rev u)"
  have t: "trim s = rev v" by (simp add: trim_def u_def v_def)
  with ne have vne: "v \<noteq> []" by simp
  then have une: "u \<noteq> []" by (auto simp: v_def)
  have "\<not> is_ws (hd v)" using vne unfolding v_def by (rule hd_dropWhile)
  then have l: "\<not> is_ws (last (trim s))" using vne by (simp add: t last_rev)
  have "\<not> is_ws (hd u)" using une unfolding u_def by (rule hd_dropWhile)
  moreover have "last v = hd u"
    by (metis Nil_is_rev_conv append_butlast_last_id last_rev snoc_suffix_snoc
        suffix_dropWhile une v_def vne)
  ultimately have "\<not> is_ws (hd (trim s))" using vne by (simp add: t hd_rev)
  with l show ?thesis by simp
qed

lemma set_trim: "set (trim s) \<subseteq> set s"
  by (auto simp: trim_def dest!: set_dropWhileD)

lemma savePrompt_tags_wellformed:
  assumes "t \<in> set (savePrompt_tags raw)"
  shows "t \<noteq> [] \<and> CHR '','' \<notin> set t \<and> \<not> is_ws (hd t) \<and> \<not> is_ws (last t)"
proof -
  from assms have "t \<in> set (filter (\<lambda>t. t \<noteq> []) (map trim (split CHR '','' raw)))"
    unfolding savePrompt_tags_eq by (rule in_set_takeD)
  then obtain seg where seg: "seg \<in> set (split CHR '','' raw)"
    and t: "t = trim seg" and ne: "t \<noteq> []"
    by auto
  from seg have "CHR '','' \<notin> set seg" by (rule split_no_sep)
  with set_trim[of seg] have "CHR '','' \<notin> set t" unfolding t by blast
  moreover from ne have "\<not> is_ws (hd t) \<and> \<not> is_ws (last t)"
    unfolding t by (rule trim_no_ws_ends)
  ultimately show ?thesis using ne by simp
qed

text \<open>
  C5. The tags sent to the store with a new record, and the tags of the record the first
  variant synthesizes, are the first three of the non-empty trimmed comma segments of
  the raw input, in their order. The segments are the input cut at its commas: joined
  by commas they give the input back, and none contains a comma. Every tag is non-empty,
  holds no comma and neither starts nor ends with white space. There are never more
  than three tags, and the input \<^verbatim>\<open>a, b, c, d\<close> gives \<^verbatim>\<open>a\<close>, \<^verbatim>\<open>b\<close>, \<^verbatim>\<open>c\<close>.
\<close>

theorem tags_of_new_record:
  assumes "newTitle st \<noteq> []" and "newPromptText st \<noteq> []" and "newUse st \<noteq> []"
  shows
    "store_calls (fst (savePrompt1_begin st)) =
       store_calls st @ [Insert \<lparr>row_title = newTitle st, row_prompt = newPromptText st,
         row_use = newUse st,
         row_tags = take 3 (filter (\<lambda>t. t \<noteq> [])
                      (map trim (split CHR '','' (newTagsInput st))))\<rparr>]
     \<and> store_calls (fst (savePrompt2_begin st)) =
       store_calls st @ [InsertSelectSingle \<lparr>row_title = newTitle st,
         row_prompt = newPromptText st, row_use = newUse st,
         row_tags = take 3 (filter (\<lambda>t. t \<noteq> [])
                      (map trim (split CHR '','' (newTagsInput st))))\<rparr>]
     \<and> tags (hd (prompts (savePrompt1 None stamp st))) =
       take 3 (filter (\<lambda>t. t \<noteq> []) (map trim (split CHR '','' (newTagsInput st))))
     \<and> join CHR '','' (split CHR '','' (newTagsInput st)) = newTagsInput st
     \<and> (\<forall>seg \<in> set (split CHR '','' (newTagsInput st)). CHR '','' \<notin> set seg)
     \<and> (\<forall>t \<in> set (savePrompt_tags (newTagsInput st)).
          t \<noteq> [] \<and> CHR '','' \<notin> set t \<and> \<not> is_ws (hd t) \<and> \<not> is_ws (last t))
     \<and> length (savePrompt_tags (newTagsInput st)) \<le> 3
     \<and> savePrompt_tags ''a, b, c, d'' = [''a'', ''b'', ''c'']"
proof -
  let ?tgs = "take 3 (filter (\<lambda>t. t \<noteq> []) (map trim (split CHR '','' (newTagsInput st))))"
  have e: "savePrompt_tags (newTagsInput st) = ?tgs" by (rule savePrompt_tags_eq)
  have r: "savePrompt_row st =
      \<lparr>row_title = newTitle st, row_prompt = newPromptText st, row_use = newUse st,
       row_tags = ?tgs\<rparr>"
    by (simp add: savePrompt_row_def e)
  have c1: "store_calls (fst (savePrompt1_begin st)) = store_calls st @ [Insert (savePrompt_row st)]"
    by (simp add: savePrompt1_begin_valid[OF assms])
  have c2: "store_calls (fst (savePrompt2_begin st)) =
      store_calls st @ [InsertSelectSingle (savePrompt_row st)]"
    by (simp add: savePrompt2_begin_valid[OF assms])
  have "tags (hd (prompts (savePrompt1 None stamp st))) = savePrompt_tags (newTagsInput st)"
    by (simp add: savePrompt1_def savePrompt1_begin_valid[OF assms] savePrompt1_resume_def
        closeModal_def updateFiltered_eq)
  then have c3: "tags (hd (prompts (savePrompt1 None stamp st))) = ?tgs"
    by (simp only: e)
  have c4: "join CHR '','' (split CHR '','' (newTagsInput st)) = newTagsInput st"
    by (rule join_split)
  have c5: "\<forall>seg \<in> set (split CHR '','' (newTagsInput st)). CHR '','' \<notin> set seg"
    using split_no_sep by blast
  have c6: "length (savePrompt_tags (newTagsInput st)) \<le> 3"
    by (simp add: e)
  have c7: "\<forall>t \<in> set (savePrompt_tags (newTagsInput st)).
      t \<noteq> [] \<and> CHR '','' \<notin> set t \<and> \<not> is_ws (hd t) \<and> \<not> is_ws (last t)"
    using savePrompt_tags_wellformed by blast
  note facts = c1[unfolded r] c2[unfolded r] c3 c4 c5 c7 c6 savePrompt_tags_example
  show ?thesis by (intro conjI) (fact facts)+
qed

theorem tags_of_new_record_witness:
  "store_calls (fst (savePrompt2_begin ex_form)) =
     [InsertSelectSingle \<lparr>row_title = ''T'', row_prompt = ''B'', row_use = ''U'',
        row_tags = [''a'', ''b'', ''c'']\<rparr>]
   \<and> tags (hd (prompts (savePrompt1 None ''2024-05-01T10:00:00.000Z'' ex_form))) =
       [''a'', ''b'', ''c'']"
proof -
  have v: "newTitle ex_form \<noteq> []" "newPromptText ex_form \<noteq> []" "newUse ex_form \<noteq> []"
    by (simp_all add: ex_form_fields)
  have t: "take 3 (filter (\<lambda>t. t \<noteq> []) (map trim (split CHR '','' ''a, b, c, d''))) =
      [''a'', ''b'', ''c'']"
    by (simp add: split_def trim_def is_ws_def)
  from tags_of_new_record[OF v, of "''2024-05-01T10:00:00.000Z''"] show ?thesis
    by (simp add: ex_form_fields t)
qed

subsection \<open>Validation\<close>

text \<open>
  C6. When the title, the prompt text or the use is the empty string (the raw input,
  untrimmed), submitting does one thing in both variants: it alerts the validation
  message. The handler returns before the insert is issued, so no request reaches the
  store; the full set, the filtered view, the modal flag and the four form fields are
  what they were.
\<close>

theorem empty_required_field_aborts:
  assumes "newTitle st = [] \<or> newPromptText st = [] \<or> newUse st = []"
  shows
    "savePrompt1 err stamp st = st\<lparr>alerts := alerts st @ [validation_notice]\<rparr>
     \<and> savePrompt2 resp now stamp st = st\<lparr>alerts := alerts st @ [validation_notice]\<rparr>
     \<and> snd (savePrompt1_begin st) = None \<and> snd (savePrompt2_begin st) = None
     \<and> store_calls (savePrompt1 err stamp st) = store_calls st
     \<and> store_calls (savePrompt2 resp now stamp st) = store_calls st
     \<and> prompts (savePrompt1 err stamp st) = prompts st
     \<and> prompts (savePrompt2 resp now stamp st) = prompts st
     \<and> filtered (savePrompt1 err stamp st) = filtered st
     \<and> filtered (savePrompt2 resp now stamp st) = filtered st
     \<and> showModal (savePrompt1 err stamp st) = showModal st
     \<and> showModal (savePrompt2 resp now stamp st) = showModal st
     \<and> newTagsInput (savePrompt1 err stamp st) = newTagsInput st
     \<and> newTagsInput (savePrompt2 resp now stamp st) = newTagsInput st"
proof -
  have 1: "savePrompt1 err stamp st = st\<lparr>alerts := alerts st @ [validation_notice]\<rparr>"
    by (simp add: savePrompt1_def savePrompt1_begin_invalid[OF assms])
  have 2: "savePrompt2 resp now stamp st = st\<lparr>alerts := alerts st @ [validation_notice]\<rparr>"
    by (simp add: savePrompt2_def savePrompt2_begin_invalid[OF assms])
  show ?thesis
    by (simp add: 1 2 savePrompt1_begin_invalid[OF assms] savePrompt2_begin_invalid[OF assms])
qed

theorem empty_required_field_aborts_witness:
  "newTitle ex_no_title = []
   \<and> alerts (savePrompt1 None ''2024-05-01T10:00:00.000Z'' ex_no_title) = [validation_notice]
   \<and> store_calls (savePrompt1 None ''2024-05-01T10:00:00.000Z'' ex_no_title) = []
   \<and> prompts (savePrompt1 None ''2024-05-01T10:00:00.000Z'' ex_no_title) = [ex_admin]
   \<and> showModal (savePrompt1 None ''2024-05-01T10:00:00.000Z'' ex_no_title)
   \<and> newTagsInput (savePrompt1 None ''2024-05-01T10:00:00.000Z'' ex_no_title) = ''a, b''"
proof -
  have h: "newTitle ex_no_title = [] \<or> newPromptText ex_no_title = [] \<or> newUse ex_no_title = []"
    by (simp add: ex_no_title_fields)
  from empty_required_field_aborts[OF h, of None "''2024-05-01T10:00:00.000Z''"]
  show ?thesis by (simp add: ex_no_title_fields)
qed

subsection \<open>A failed insert in the first variant\<close>

text \<open>
  C2 says that the first variant puts a client-made record in front of the set even
  when the insert fails. It does not: with the form \<^verbatim>\<open>T\<close>, \<^verbatim>\<open>B\<close>, \<^verbatim>\<open>U\<close>,
  \<^verbatim>\<open>a, b, c, d\<close> over a set holding one record, the insert is issued, the store
  answers with an error, and the set still holds that one record only.
\<close>

theorem failed_insert_adds_nothing:
  "store_calls (savePrompt1 (Some ''insert failed'') ''2024-05-01T10:00:00.000Z'' ex_form) =
     [Insert \<lparr>row_title = ''T'', row_prompt = ''B'', row_use = ''U'',
        row_tags = [''a'', ''b'', ''c'']\<rparr>]
   \<and> prompts (savePrompt1 (Some ''insert failed'') ''2024-05-01T10:00:00.000Z'' ex_form) =
       [ex_admin]
   \<and> prompts (savePrompt1 (Some ''insert failed'') ''2024-05-01T10:00:00.000Z'' ex_form) \<noteq>
       \<lparr>id' = - 1, title = ''T'', prompt = ''B'', use = ''U'', tags = [''a'', ''b'', ''c''],
        updated_at = ''2024-05-01T10:00:00.000Z''\<rparr> # [ex_admin]"
  by (simp add: savePrompt1_def savePrompt1_begin_def savePrompt1_resume_def ex_form_fields
      savePrompt_row_def savePrompt_tags_example)

text \<open>
  C2, amended. In the first variant a failed insert adds nothing: the handler returns
  with the full set, the filtered view, the modal and the form as they were, and the
  only trace is the request it sent. A record is put in front of the set only when the
  store reports no error; that record is always made by the client, with the id
  \<open>-1\<close>, since this variant never reads the inserted row back.
\<close>

theorem first_variant_adds_only_after_success:
  assumes "newTitle st \<noteq> []" and "newPromptText st \<noteq> []" and "newUse st \<noteq> []"
  shows
    "savePrompt1 (Some e) stamp st =
       st\<lparr>store_calls := store_calls st @ [Insert (savePrompt_row st)]\<rparr>
     \<and> prompts (savePrompt1 (Some e) stamp st) = prompts st
     \<and> filtered (savePrompt1 (Some e) stamp st) = filtered st
     \<and> showModal (savePrompt1 (Some e) stamp st) = showModal st
     \<and> prompts (savePrompt1 None stamp st) =
       \<lparr>id' = - 1, title = newTitle st, prompt = newPromptText st, use = newUse st,
        tags = savePrompt_tags (newTagsInput st), updated_at = stamp\<rparr> # prompts st"
  by (simp add: savePrompt1_def savePrompt1_begin_valid[OF assms] savePrompt1_resume_def
      closeModal_def updateFiltered_eq)

theorem first_variant_adds_only_after_success_witness:
  "prompts (savePrompt1 (Some ''insert failed'') ''2024-05-01T10:00:00.000Z'' ex_form) = [ex_admin]
   \<and> filtered (savePrompt1 (Some ''insert failed'') ''2024-05-01T10:00:00.000Z'' ex_form) =
       [ex_admin]
   \<and> map id' (prompts (savePrompt1 None ''2024-05-01T10:00:00.000Z'' ex_form)) = [- 1, 1]"
proof -
  have v: "newTitle ex_form \<noteq> []" "newPromptText ex_form \<noteq> []" "newUse ex_form \<noteq> []"
    by (simp_all add: ex_form_fields)
  from first_variant_adds_only_after_success[OF v, of "''insert failed''"
      "''2024-05-01T10:00:00.000Z''"]
  show ?thesis by (simp add: ex_form_fields ex_admin_def)
qed

subsection \<open>The ids of created records\<close>

text \<open>
  C3 asks that the ids of the in-memory set stay distinct, also after two creations
  through the first variant. The first variant gives every record it creates the id
  \<open>-1\<close>: starting from an empty catalog, the first creation leaves the ids
  \<open>[-1]\<close> and the second leaves \<open>[-1, -1]\<close>, which are not distinct. The
  page's card list is keyed by \<^verbatim>\<open>p.id\<close>.
\<close>

theorem two_creations_share_the_sentinel_id:
  "map id' (prompts ex_first_save) = [- 1]
   \<and> map id' (prompts ex_second_save) = [- 1, - 1]
   \<and> \<not> distinct (map id' (prompts ex_second_save))"
  by (simp add: ex_second_save_def ex_first_save_def savePrompt1_def savePrompt1_begin_def
      savePrompt1_resume_def fill_form_def openModal_def closeModal_def init_view_def
      updateFiltered_eq)

subsection \<open>Where a created record goes\<close>

text \<open>
  C4. After a successful creation the new record is at index 0 of the full set and the
  records that were there before follow it, unchanged and in their order. This holds in
  the first variant (the record made by the client) and in the second (the row the store
  returned, or the record made by the client when it returned none), whatever the
  record's \<^verbatim>\<open>updated_at\<close> is. Whatever the store answers, the earlier set is kept as
  the tail of the new one: nothing is changed or removed.
\<close>

theorem created_record_is_prepended:
  assumes "newTitle st \<noteq> []" and "newPromptText st \<noteq> []" and "newUse st \<noteq> []"
  shows
    "prompts (savePrompt1 None stamp st) ! 0 =
       \<lparr>id' = - 1, title = newTitle st, prompt = newPromptText st, use = newUse st,
        tags = savePrompt_tags (newTagsInput st), updated_at = stamp\<rparr>
     \<and> drop 1 (prompts (savePrompt1 None stamp st)) = prompts st
     \<and> prompts (savePrompt2 \<lparr>data = Some r, error = None\<rparr> now stamp st) ! 0 = r
     \<and> drop 1 (prompts (savePrompt2 \<lparr>data = Some r, error = None\<rparr> now stamp st)) = prompts st
     \<and> prompts (savePrompt2 \<lparr>data = None, error = None\<rparr> now stamp st) ! 0 =
       \<lparr>id' = now, title = newTitle st, prompt = newPromptText st, use = newUse st,
        tags = savePrompt_tags (newTagsInput st), updated_at = stamp\<rparr>
     \<and> drop 1 (prompts (savePrompt2 \<lparr>data = None, error = None\<rparr> now stamp st)) = prompts st
     \<and> suffix (prompts st) (prompts (savePrompt1 err stamp st))
     \<and> suffix (prompts st) (prompts (savePrompt2 resp now stamp st))"
proof -
  have 1: "prompts (savePrompt1 None stamp st) =
       \<lparr>id' = - 1, title = newTitle st, prompt = newPromptText st, use = newUse st,
        tags = savePrompt_tags (newTagsInput st), updated_at = stamp\<rparr> # prompts st"
    by (simp add: savePrompt1_def savePrompt1_begin_valid[OF assms] savePrompt1_resume_def
        closeModal_def updateFiltered_eq)
  have 2: "prompts (savePrompt2 \<lparr>data = Some r, error = None\<rparr> now stamp st) = r # prompts st"
    by (simp add: savePrompt2_def savePrompt2_begin_valid[OF assms] savePrompt2_resume_def
        closeModal_def updateFiltered_eq)
  have 3: "prompts (savePrompt2 \<lparr>data = None, error = None\<rparr> now stamp st) =
       \<lparr>id' = now, title = newTitle st, prompt = newPromptText st, use = newUse st,
        tags = savePrompt_tags (newTagsInput st), updated_at = stamp\<rparr> # prompts st"
    by (simp add: savePrompt2_def savePrompt2_begin_valid[OF assms] savePrompt2_resume_def
        closeModal_def updateFiltered_eq Let_def)
  have 4: "suffix (prompts st) (prompts (savePrompt1 err stamp st))"
    by (cases err)
       (simp_all add: savePrompt1_def savePrompt1_begin_valid[OF assms] savePrompt1_resume_def
          closeModal_def updateFiltered_eq suffix_Cons)
  have 5: "suffix (prompts st) (prompts (savePrompt2 resp now stamp st))"
    by (cases "error resp"; cases "data resp")
       (simp_all add: savePrompt2_def savePrompt2_begin_valid[OF assms] savePrompt2_resume_def
          closeModal_def updateFiltered_eq suffix_Cons Let_def)
  show ?thesis by (simp add: 1 2 3 4 5)
qed

theorem created_record_is_prepended_witness:
  "prompts (savePrompt1 None ''2020-01-01T00:00:00.000Z'' ex_form) ! 0 =
     \<lparr>id' = - 1, title = ''T'', prompt = ''B'', use = ''U'', tags = [''a'', ''b'', ''c''],
      updated_at = ''2020-01-01T00:00:00.000Z''\<rparr>
   \<and> drop 1 (prompts (savePrompt1 None ''2020-01-01T00:00:00.000Z'' ex_form)) = [ex_admin]
   \<and> prompts (savePrompt2 \<lparr>data = Some ex_copy, error = None\<rparr> 1714557600000
        ''2020-01-01T00:00:00.000Z'' ex_form) ! 0 = ex_copy"
proof -
  have v: "newTitle ex_form \<noteq> []" "newPromptText ex_form \<noteq> []" "newUse ex_form \<noteq> []"
    by (simp_all add: ex_form_fields)
  from created_record_is_prepended[OF v, of "''2020-01-01T00:00:00.000Z''" ex_copy 1714557600000]
  show ?thesis by (simp add: ex_form_fields savePrompt_tags_example)
qed

subsection \<open>The two success paths of the second variant\<close>

text \<open>
  What the second part of the handler does on success, in whatever state it resumes:
  without a returned row it puts a record in front of the set whose id is the current
  time, whose tags are the captured ones, and whose title, prompt and use are read from
  the form variables at that moment; with a returned row it puts that row in front.
\<close>

lemma savePrompt2_resume_success:
  "prompts (savePrompt2_resume tgs \<lparr>data = None, error = None\<rparr> now stamp st) =
     \<lparr>id' = now, title = newTitle st, prompt = newPromptText st, use = newUse st,
      tags = tgs, updated_at = stamp\<rparr> # prompts st"
  "prompts (savePrompt2_resume tgs \<lparr>data = Some r, error = None\<rparr> now stamp st) = r # prompts st"
  "store_calls (savePrompt2_resume tgs \<lparr>data = d, error = None\<rparr> now stamp st) = store_calls st"
  by (cases d; simp add: savePrompt2_resume_def closeModal_def updateFiltered_eq Let_def)+

lemma savePrompt2_interleaved_id: "savePrompt2_interleaved (\<lambda>s. s) = savePrompt2"
  by (intro ext) (simp add: savePrompt2_interleaved_def savePrompt2_def)

lemma ex_form2_begin:
  "savePrompt2_begin ex_form2 =
     (ex_form2\<lparr>store_calls := [InsertSelectSingle
        \<lparr>row_title = ''T'', row_prompt = ''B'', row_use = ''U'',
         row_tags = [''a'', ''b'', ''c'']\<rparr>]\<rparr>, Some [''a'', ''b'', ''c''])"
proof -
  have v: "newTitle ex_form2 \<noteq> []" "newPromptText ex_form2 \<noteq> []" "newUse ex_form2 \<noteq> []"
    by (simp_all add: ex_form2_fields)
  have s: "store_calls ex_form2 = []"
    by (simp add: ex_form2_def ex_view2_def onMount_def fill_form_def openModal_def
        init_view2_def)
  show ?thesis
    by (simp add: savePrompt2_begin_valid[OF v] savePrompt_row_def ex_form2_fields
        savePrompt_tags_example s)
qed

text \<open>
  C9 asks that, when the store reports success without returning the row, the record
  put in front of the set carry the submitted title, prompt and use. The handler sends
  these three to the store before the await, but builds the record from the form
  variables as they are when it resumes; only the tags are captured before. Submit the
  form \<^verbatim>\<open>T\<close>, \<^verbatim>\<open>B\<close>, \<^verbatim>\<open>U\<close>, \<^verbatim>\<open>a, b, c, d\<close> and retype the inputs while the
  insert is awaited: the store was sent \<^verbatim>\<open>T\<close>, \<^verbatim>\<open>B\<close>, \<^verbatim>\<open>U\<close>, and the record in
  front of the set reads \<^verbatim>\<open>T9\<close>, \<^verbatim>\<open>B9\<close>, \<^verbatim>\<open>U9\<close> with the submitted tags. Close
  and reopen the modal instead, and the record has an empty title, prompt and use.
\<close>

theorem fallback_record_reads_form_after_await:
  "store_calls (savePrompt2_interleaved (fill_form ''T9'' ''B9'' ''U9'' ''z'')
       \<lparr>data = None, error = None\<rparr> 1714557600000 ''2024-05-01T10:00:00.000Z'' ex_form2) =
     [InsertSelectSingle \<lparr>row_title = ''T'', row_prompt = ''B'', row_use = ''U'',
        row_tags = [''a'', ''b'', ''c'']\<rparr>]
   \<and> prompts (savePrompt2_interleaved (fill_form ''T9'' ''B9'' ''U9'' ''z'')
       \<lparr>data = None, error = None\<rparr> 1714557600000 ''2024-05-01T10:00:00.000Z'' ex_form2) =
     [\<lparr>id' = 1714557600000, title = ''T9'', prompt = ''B9'', use = ''U9'',
       tags = [''a'', ''b'', ''c''], updated_at = ''2024-05-01T10:00:00.000Z''\<rparr>,
      ex_copy, ex_admin]
   \<and> prompts (savePrompt2_interleaved (fill_form ''T9'' ''B9'' ''U9'' ''z'')
       \<lparr>data = None, error = None\<rparr> 1714557600000 ''2024-05-01T10:00:00.000Z'' ex_form2) \<noteq>
     [\<lparr>id' = 1714557600000, title = ''T'', prompt = ''B'', use = ''U'',
       tags = [''a'', ''b'', ''c''], updated_at = ''2024-05-01T10:00:00.000Z''\<rparr>,
      ex_copy, ex_admin]
   \<and> prompts (savePrompt2_interleaved (\<lambda>s. openModal (closeModal s))
       \<lparr>data = None, error = None\<rparr> 1714557600000 ''2024-05-01T10:00:00.000Z'' ex_form2) =
     [\<lparr>id' = 1714557600000, title = [], prompt = [], use = [],
       tags = [''a'', ''b'', ''c''], updated_at = ''2024-05-01T10:00:00.000Z''\<rparr>,
      ex_copy, ex_admin]"
  by (simp add: savePrompt2_interleaved_def ex_form2_begin savePrompt2_resume_success
      fill_form_def openModal_def closeModal_def ex_form2_fields)

section \<open>Properties of the copy feedback\<close>

lemma copyPrompt_begin_ok:
  "clipboardSupported st \<Longrightarrow> textToCopy \<noteq> [] \<Longrightarrow>
   copyPrompt_begin textToCopy i st =
     (st\<lparr>copyError := [], copiedPromptId := None,
         clipboard_calls := clipboard_calls st @ [textToCopy]\<rparr>, True)"
  by (simp add: copyPrompt_begin_def)

lemma ex_view2_fields:
  "clipboardSupported ex_view2" "timers ex_view2 = []" "copiedPromptId ex_view2 = None"
  "prompts ex_view2 = [ex_copy, ex_admin]"
  by (simp_all add: ex_view2_def onMount_def init_view2_def)

text \<open>
  C7. Let the clipboard be available, let A and B be records with different ids and
  non-empty prompts, and let the copy on A have succeeded, so that A shows the feedback
  and its revert is pending with a delay of 1500 ms. The copy on B clears the feedback
  at once, before its write settles. When the write has succeeded, B shows the feedback
  (its card reads \<^verbatim>\<open>Copied!\<close>) and A does not (its card reads its prompt), and
  every record showing it has B's id. A's revert is still pending;
  when it fires it leaves B's feedback in place, because the stored id is no longer
  A's. The same holds when A's revert fires while B's write is still awaited.
\<close>

theorem newer_copy_supersedes_older:
  assumes sup: "clipboardSupported s0"
    and ta: "prompt a \<noteq> []" and tb: "prompt b \<noteq> []" and ab: "id' a \<noteq> id' b"
  defines "sA \<equiv> copyPrompt True (prompt a) (id' a) s0"
  defines "sB0 \<equiv> fst (copyPrompt_begin (prompt b) (id' b) sA)"
  defines "sB \<equiv> copyPrompt True (prompt b) (id' b) sA"
  shows
    "shows_copied sA a \<and> timers sA = timers s0 @ [(1500, id' a)]
     \<and> snd (copyPrompt_begin (prompt b) (id' b) sA)
     \<and> copiedPromptId sB0 = None \<and> \<not> shows_copied sB0 a
     \<and> sB = copyPrompt_settle True (id' b) sB0
     \<and> shows_copied sB b \<and> \<not> shows_copied sB a
     \<and> card_text sB b = ''Copied!'' \<and> card_text sB a = prompt a
     \<and> (\<forall>p. shows_copied sB p \<longrightarrow> id' b = id' p)
     \<and> timers sB ! length (timers s0) = (1500, id' a)
     \<and> copiedPromptId (fire_timer (length (timers s0)) sB) = Some (id' b)
     \<and> shows_copied (fire_timer (length (timers s0)) sB) b
     \<and> copiedPromptId (copyPrompt_settle True (id' b) (fire_timer (length (timers s0)) sB0))
         = Some (id' b)"
proof -
  have A: "sA = s0\<lparr>copyError := [], copiedPromptId := Some (id' a),
        clipboard_calls := clipboard_calls s0 @ [prompt a],
        timers := timers s0 @ [(1500, id' a)]\<rparr>"
    by (simp add: sA_def copyPrompt_def copyPrompt_begin_ok[OF sup ta] copyPrompt_settle_def)
  have supA: "clipboardSupported sA" by (simp add: A sup)
  have B0: "copyPrompt_begin (prompt b) (id' b) sA =
      (sA\<lparr>copyError := [], copiedPromptId := None,
          clipboard_calls := clipboard_calls sA @ [prompt b]\<rparr>, True)"
    by (rule copyPrompt_begin_ok[OF supA tb])
  have sB0: "sB0 = sA\<lparr>copyError := [], copiedPromptId := None,
          clipboard_calls := clipboard_calls sA @ [prompt b]\<rparr>"
    by (simp add: sB0_def B0)
  have c: "sB = copyPrompt_settle True (id' b) sB0"
    by (simp add: sB_def sB0_def copyPrompt_def B0)
  have sB: "sB = sB0\<lparr>copiedPromptId := Some (id' b), timers := timers sB0 @ [(1500, id' b)]\<rparr>"
    by (simp add: c copyPrompt_settle_def)
  have tB0: "timers sB0 = timers s0 @ [(1500, id' a)]" by (simp add: sB0 A)
  have tB: "timers sB = timers s0 @ [(1500, id' a), (1500, id' b)]" by (simp add: sB tB0)
  have f1: "copiedPromptId (fire_timer (length (timers s0)) sB) = Some (id' b)"
    using ab by (simp add: fire_timer_def tB tB0 revert_callback_def nth_append sB)
  have f2: "copiedPromptId (copyPrompt_settle True (id' b) (fire_timer (length (timers s0)) sB0))
         = Some (id' b)"
    by (simp add: copyPrompt_settle_def)
  have g1: "shows_copied sA a" by (simp add: shows_copied_def A)
  have g2: "timers sA = timers s0 @ [(1500, id' a)]" by (simp add: A)
  have g3: "snd (copyPrompt_begin (prompt b) (id' b) sA)" by (simp add: B0)
  have g4: "copiedPromptId sB0 = None" by (simp add: sB0)
  have g5: "\<not> shows_copied sB0 a" by (simp add: shows_copied_def g4)
  have g6: "shows_copied sB b" by (simp add: shows_copied_def sB)
  have g7: "\<not> shows_copied sB a" using ab by (simp add: shows_copied_def sB)
  have k1: "card_text sB b = ''Copied!''" by (simp add: card_text_def g6)
  have k2: "card_text sB a = prompt a" by (simp add: card_text_def g7)
  have g8: "\<forall>p. shows_copied sB p \<longrightarrow> id' b = id' p" by (simp add: shows_copied_def sB)
  have g9: "timers sB ! length (timers s0) = (1500, id' a)" by (simp add: tB nth_append)
  have g10: "shows_copied (fire_timer (length (timers s0)) sB) b"
    by (simp add: shows_copied_def f1)
  note facts = g1 g2 g3 g4 g5 c g6 g7 k1 k2 g8 g9 f1 g10 f2
  show ?thesis by (intro conjI) (fact facts)+
qed

theorem newer_copy_supersedes_older_witness:
  "shows_copied (copyPrompt True (prompt ex_copy) (id' ex_copy) ex_view2) ex_copy
   \<and> shows_copied
       (copyPrompt True (prompt ex_admin) (id' ex_admin)
         (copyPrompt True (prompt ex_copy) (id' ex_copy) ex_view2)) ex_admin
   \<and> \<not> shows_copied
       (copyPrompt True (prompt ex_admin) (id' ex_admin)
         (copyPrompt True (prompt ex_copy) (id' ex_copy) ex_view2)) ex_copy
   \<and> copiedPromptId (fire_timer 0
       (copyPrompt True (prompt ex_admin) (id' ex_admin)
         (copyPrompt True (prompt ex_copy) (id' ex_copy) ex_view2))) = Some (id' ex_admin)"
proof -
  have h: "clipboardSupported ex_view2" "prompt ex_copy \<noteq> []" "prompt ex_admin \<noteq> []"
    "id' ex_copy \<noteq> id' ex_admin"
    by (simp_all add: ex_view2_fields ex_copy_def ex_admin_def)
  have l: "length (timers ex_view2) = 0" by (simp add: ex_view2_fields)
  note t = newer_copy_supersedes_older[OF h, unfolded l]
  from t show ?thesis by (elim conjE) (intro conjI; assumption)
qed

text \<open>
  C8. When the clipboard capability flag is false, the copy operation alerts the notice
  that the clipboard is not available and returns: the handler is not suspended, and
  the feedback id, the error message, the texts handed to the clipboard and the pending
  reverts are what they were, for every text, id and state of the view.
\<close>

theorem copy_without_clipboard:
  assumes "\<not> clipboardSupported st"
  shows
    "copyPrompt ok textToCopy i st = st\<lparr>alerts := alerts st @ [clipboard_notice]\<rparr>
     \<and> copyPrompt_begin textToCopy i st = (st\<lparr>alerts := alerts st @ [clipboard_notice]\<rparr>, False)
     \<and> alerts (copyPrompt ok textToCopy i st) = alerts st @ [clipboard_notice]
     \<and> copiedPromptId (copyPrompt ok textToCopy i st) = copiedPromptId st
     \<and> copyError (copyPrompt ok textToCopy i st) = copyError st
     \<and> clipboard_calls (copyPrompt ok textToCopy i st) = clipboard_calls st
     \<and> timers (copyPrompt ok textToCopy i st) = timers st"
  using assms by (simp add: copyPrompt_def copyPrompt_begin_def)

theorem copy_without_clipboard_witness:
  "\<not> clipboardSupported ex_no_clipboard
   \<and> alerts (copyPrompt True (prompt ex_admin) (id' ex_admin) ex_no_clipboard) = [clipboard_notice]
   \<and> copiedPromptId (copyPrompt True (prompt ex_admin) (id' ex_admin) ex_no_clipboard) = None
   \<and> copyError (copyPrompt True (prompt ex_admin) (id' ex_admin) ex_no_clipboard) = []"
proof -
  have f: "\<not> clipboardSupported ex_no_clipboard" "alerts ex_no_clipboard = []"
    "copiedPromptId ex_no_clipboard = None" "copyError ex_no_clipboard = []"
    by (simp_all add: ex_no_clipboard_def onMount_def init_view2_def)
  from copy_without_clipboard[OF f(1), of True "prompt ex_admin" "id' ex_admin"]
  show ?thesis by (simp add: f)
qed

end
